theory Spec2Isabelle
  imports Main
begin

section \<open>Data model of routes/x/module.tsx\<close>

text \<open>
  The route handler of \<^verbatim>\<open>src/routes/x/module.tsx\<close> (\<^verbatim>\<open>handler.GET\<close> and
  \<^verbatim>\<open>handlerRaw\<close>) is embedded as a pure function of the request, the route parameters
  and an environment holding everything the handler calls but does not define: the
  content negotiation of \<^verbatim>\<open>$oak_commons\<close>, the platform's \<^verbatim>\<open>fetch\<close>, and the helpers
  imported from \<^verbatim>\<open>@/util/registry_utils.ts\<close>. The handler returns the list of calls it
  made, in order, and either a failure (an awaited call rejected) or its outcome.
\<close>

datatype Views = Doc | Source | Info

fun view_text :: "Views \<Rightarrow> string" where
  "view_text Doc = ''doc''"
| "view_text Source = ''source''"
| "view_text Info = ''info''"

record Params =
  name :: string
  version :: string
  path :: string

text \<open>
  A \<^verbatim>\<open>URL\<close> object, by its components. \<open>searchParams\<close> is the list of the object's
  \<^verbatim>\<open>URLSearchParams\<close>; \<open>hash\<close> is the fragment, without its leading \<^verbatim>\<open>#\<close>.
\<close>

record URL =
  origin :: string
  pathname :: string
  searchParams :: "(string \<times> string) list"
  hash :: string

text \<open>
  A request: \<open>req_url\<close> is the text \<^verbatim>\<open>req.url\<close>, \<open>url\<close> the object
  \<^verbatim>\<open>new URL(req.url)\<close> and \<open>accept\<close> the request's \<^verbatim>\<open>Accept\<close> header.
\<close>

record Request =
  req_url :: string
  url :: URL
  accept :: string

datatype payload = Content string | Failed string

text \<open>
  The page description the metadata service answers with (\<^verbatim>\<open>DocPage\<close>,
  \<^verbatim>\<open>SourcePage\<close>, \<^verbatim>\<open>InfoPage\<close>): its \<^verbatim>\<open>kind\<close> tag and the fields the handler
  reads or writes (\<open>page_file\<close> for its \<^verbatim>\<open>file\<close>, a reserved word here).
\<close>

record page =
  kind :: string
  readme :: "string option"
  readmeFile :: "payload option"
  page_file :: "payload option"

record Data =
  data :: page
  view :: Views

text \<open>
  The answer of \<^verbatim>\<open>fetch(resURL, { redirect: "manual" })\<close>: \<open>json\<close> is \<open>None\<close> when
  \<^verbatim>\<open>res.json()\<close> rejects.
\<close>

record Res =
  status :: nat
  headers :: "string \<rightharpoonup> string"
  json :: "page option"

record VersionList =
  latest :: "string option"
  versions :: "string list"

record LineRef =
  rest :: string
  line :: nat

datatype failure = Rejected string

datatype call =
    Fetch string "string option"
  | ConsoleLog string
  | GetVersionList string
  | FetchSource string string string
  | GetReadme string string string
  | GetRawFile string string string

text \<open>
  The address of a redirect: a \<^verbatim>\<open>URL\<close> object, or \<^verbatim>\<open>new URL(ref, base)\<close> kept
  as the reference and the base it is resolved against.
\<close>

datatype target = Obj URL | WithBase string URL

datatype Response = Response nat "(string \<times> string) list" "string option"

datatype outcome =
    Redirect target nat
  | Respond Response
  | Render "Data option"

text \<open>
  What the handler calls and this file does not define. \<^verbatim>\<open>null\<close> and
  \<^verbatim>\<open>undefined\<close> arguments are \<open>None\<close>. An awaited call answers \<open>Inl\<close> when its
  promise rejects. Two operations of the platform are kept here as well, since what they
  answer depends on a value that comes from \<^verbatim>\<open>extractAltLineNumberReference\<close>:
  \<open>URL_pathname_setter d u v\<close> is the path of the address \<open>u\<close> after the assignment
  \<^verbatim>\<open>u.pathname = v\<close>, which parses \<open>v\<close> again, and \<open>Number_toString d n\<close> is the text
  of the number \<open>n\<close> in a string concatenation.
\<close>

record env =
  accepts :: "Request \<Rightarrow> string list \<Rightarrow> string option"
  fetch :: "string \<Rightarrow> string option \<Rightarrow> failure + Res"
  getModulePath :: "string \<Rightarrow> string option \<Rightarrow> string option \<Rightarrow> string"
  extractAltLineNumberReference :: "string \<Rightarrow> LineRef option"
  getVersionList :: "string \<Rightarrow> failure + VersionList option"
  fetchSource :: "string \<Rightarrow> string \<Rightarrow> string \<Rightarrow> failure + Response"
  getReadme :: "string \<Rightarrow> string \<Rightarrow> string \<Rightarrow> failure + payload"
  getRawFile :: "string \<Rightarrow> string \<Rightarrow> string \<Rightarrow> failure + payload"
  URL_pathname_setter :: "URL \<Rightarrow> string \<Rightarrow> string"
  Number_toString :: "nat \<Rightarrow> string"

section \<open>Platform operations\<close>

text \<open>\<^verbatim>\<open>URLSearchParams.has\<close>, \<^verbatim>\<open>get\<close> and \<^verbatim>\<open>set\<close> on the list of pairs.\<close>

definition URLSearchParams_has :: "string \<Rightarrow> (string \<times> string) list \<Rightarrow> bool" where
  "URLSearchParams_has k ps = (k \<in> set (map fst ps))"

definition URLSearchParams_get :: "string \<Rightarrow> (string \<times> string) list \<Rightarrow> string option" where
  "URLSearchParams_get k ps = map_of ps k"

fun set_first :: "string \<Rightarrow> string \<Rightarrow> (string \<times> string) list \<Rightarrow> (string \<times> string) list" where
  "set_first k v [] = []"
| "set_first k v (p # ps) =
     (if fst p = k then (k, v) # filter (\<lambda>q. fst q \<noteq> k) ps else p # set_first k v ps)"

definition URLSearchParams_set ::
  "string \<Rightarrow> string \<Rightarrow> (string \<times> string) list \<Rightarrow> (string \<times> string) list" where
  "URLSearchParams_set k v ps =
     (if URLSearchParams_has k ps then set_first k v ps else ps @ [(k, v)])"

text \<open>
  The test \<^verbatim>\<open>if (x)\<close> and \<^verbatim>\<open>x && ...\<close> on a value that is a string or missing:
  an empty string does not pass.
\<close>

definition truthy :: "string option \<Rightarrow> bool" where
  "truthy x = (case x of None \<Rightarrow> False | Some s \<Rightarrow> s \<noteq> [])"

text \<open>
  \<^verbatim>\<open>Response.redirect(url, status)\<close>: the status is 302 when the argument is left out.
\<close>

definition Response_redirect :: "target \<Rightarrow> nat option \<Rightarrow> outcome" where
  "Response_redirect t s = Redirect t (case s of None \<Rightarrow> 302 | Some n \<Rightarrow> n)"

text \<open>
  The query of a redirect address. For \<^verbatim>\<open>new URL(ref, base)\<close> it is decided for a
  reference that is an absolute path (a \<^verbatim>\<open>/\<close> not followed by \<^verbatim>\<open>/\<close> or a backslash)
  with no \<^verbatim>\<open>?\<close> in it: the result then has no query, whatever the base's. Other
  references are left undecided (\<open>None\<close>).
\<close>

definition absolute_path_ref :: "string \<Rightarrow> bool" where
  "absolute_path_ref r =
     (case r of
        [] \<Rightarrow> False
      | c # cs \<Rightarrow> c = CHR ''/'' \<and>
          (case cs of [] \<Rightarrow> True | c' # _ \<Rightarrow> c' \<noteq> CHR ''/'' \<and> c' \<noteq> CHR 0x5C))"

definition target_query :: "target \<Rightarrow> (string \<times> string) list option" where
  "target_query t =
     (case t of
        Obj u \<Rightarrow> Some (searchParams u)
      | WithBase r b \<Rightarrow>
          if absolute_path_ref r \<and> CHR ''?'' \<notin> set r then Some [] else None)"

text \<open>
  The decimal digits of a natural number: the text of a number below \<open>2 ^ 53\<close> in a
  string concatenation. It stands for \<open>Number_toString\<close> at such numbers only.
\<close>

function string_of_nat :: "nat \<Rightarrow> string" where
  "string_of_nat n =
     (if n < 10 then [''0123456789'' ! n]
      else string_of_nat (n div 10) @ [''0123456789'' ! (n mod 10)])"
  by pat_completeness auto
termination
  by (relation "measure (\<lambda>n. n)") auto

declare string_of_nat.simps [simp del]

section \<open>The handler\<close>

definition RAW_HEADERS :: "(string \<times> string) list" where
  "RAW_HEADERS = [(''Access-Control-Allow-Origin'', ''*'')]"

text \<open>\<^verbatim>\<open>handlerRaw\<close>, lines 163 to 194.\<close>

definition handlerRaw :: "env \<Rightarrow> Request \<Rightarrow> Params \<Rightarrow> call list \<times> (failure + outcome)" where
  "handlerRaw d req ps =
     (if version ps = [] then
        (case getVersionList d (name ps) of
           Inl e \<Rightarrow> ([GetVersionList (name ps)], Inl e)
         | Inr None \<Rightarrow>
             ([GetVersionList (name ps)],
              Inr (Respond (Response 404 RAW_HEADERS
                (Some (''The module '' @ [CHR 0x27] @ name ps @ [CHR 0x27] @ '' does not exist'')))))
         | Inr (Some vl) \<Rightarrow>
             (case latest vl of
                None \<Rightarrow>
                  ([GetVersionList (name ps)],
                   Inr (Respond (Response 404 RAW_HEADERS
                     (Some (''The module '' @ [CHR 0x27] @ name ps @ [CHR 0x27]
                        @ '' has no latest version.'')))))
              | Some l \<Rightarrow>
                  (let p = (if path ps \<noteq> [] then ''/'' @ path ps else path ps) in
                   ([GetVersionList (name ps)],
                    Inr (Respond (Response 302
                      (RAW_HEADERS @
                        [(''Location'', getModulePath d (name ps) (Some l) (Some p)),
                         (''x-deno-warning'',
                          ''Implicitly using latest version ('' @ l @ '') for '' @ req_url req)])
                      None))))))
      else
        (case fetchSource d (name ps) (version ps) (path ps) of
           Inl e \<Rightarrow> ([FetchSource (name ps) (version ps) (path ps)], Inl e)
         | Inr r \<Rightarrow> ([FetchSource (name ps) (version ps) (path ps)], Inr (Respond r))))"

text \<open>The view, lines 69 to 78 of \<^verbatim>\<open>handler.GET\<close>.\<close>

definition resolve_view :: "URL \<Rightarrow> string \<Rightarrow> Views" where
  "resolve_view u p =
     (if URLSearchParams_has ''source'' (searchParams u) then Source
      else if URLSearchParams_has ''doc'' (searchParams u) then Doc
      else if p = [] then Info
      else Doc)"

text \<open>
  The address of the page metadata, lines 80 to 89: the text given to \<^verbatim>\<open>new URL\<close> and
  the \<^verbatim>\<open>symbol\<close> parameter set on it, if any.
\<close>

definition resURL :: "Views \<Rightarrow> Params \<Rightarrow> string" where
  "resURL v ps =
     ''https://apiland.deno.dev/v2/pages/mod/'' @ view_text v @ ''/'' @ name ps @ ''/''
       @ (if version ps \<noteq> [] then version ps else ''__latest__'') @ ''/'' @ path ps"

definition symbol_param :: "URL \<Rightarrow> Views \<Rightarrow> string option" where
  "symbol_param u v =
     (case URLSearchParams_get ''s'' (searchParams u) of
        None \<Rightarrow> None
      | Some s \<Rightarrow> if s \<noteq> [] \<and> v = Doc then Some s else None)"

text \<open>
  The enrichment and the hand-off to rendering, lines 148 to 154; \<open>cs\<close> are the calls
  made so far.
\<close>

definition enrich :: "env \<Rightarrow> Params \<Rightarrow> call list \<Rightarrow> Data \<Rightarrow> call list \<times> (failure + outcome)" where
  "enrich d ps cs dt =
     (if kind (data dt) = ''modinfo'' \<and> truthy (readme (data dt)) then
        (case getReadme d (name ps) (version ps) (the (readme (data dt))) of
           Inl e \<Rightarrow> (cs @ [GetReadme (name ps) (version ps) (the (readme (data dt)))], Inl e)
         | Inr r \<Rightarrow>
             (cs @ [GetReadme (name ps) (version ps) (the (readme (data dt)))],
              Inr (Render (Some (dt\<lparr>data := (data dt)\<lparr>readmeFile := Some r\<rparr>\<rparr>)))))
      else if view dt = Source \<and> kind (data dt) = ''file'' then
        (let p = (if path ps \<noteq> [] then ''/'' @ path ps else []) in
         case getRawFile d (name ps) (version ps) p of
           Inl e \<Rightarrow> (cs @ [GetRawFile (name ps) (version ps) p], Inl e)
         | Inr r \<Rightarrow>
             (cs @ [GetRawFile (name ps) (version ps) p],
              Inr (Render (Some (dt\<lparr>data := (data dt)\<lparr>page_file := Some r\<rparr>\<rparr>)))))
      else (cs, Inr (Render (Some dt))))"

text \<open>
  The two guards at the head of \<^verbatim>\<open>handler.GET\<close>: the test of line 61 on the module
  name and the path of the request's address, and \<^verbatim>\<open>isHTML\<close> of line 66.
\<close>

definition legacy_std_prefix :: "Request \<Rightarrow> Params \<Rightarrow> bool" where
  "legacy_std_prefix req ps = (name ps = ''std'' \<and> take 2 (pathname (url req)) = ''/x'')"

definition isHTML :: "env \<Rightarrow> Request \<Rightarrow> bool" where
  "isHTML d req = (accepts d req [''application/*'', ''text/html''] = Some ''text/html'')"

text \<open>
  \<^verbatim>\<open>handler.GET\<close>, lines 57 to 155. The path of the address is assigned twice. Line 62
  assigns the request's own path less its first two characters, which for a request of
  the route \<^verbatim>\<open>/x/:name\<close> is a path in normal form that the setter keeps: a record
  update. Line 142 assigns what \<^verbatim>\<open>extractAltLineNumberReference\<close> answered, which the
  setter parses: \<open>URL_pathname_setter\<close>. The fragment of line 144 is \<^verbatim>\<open>L\<close> and the text
  of a number, \<open>Number_toString\<close>.
\<close>

definition handler_GET :: "env \<Rightarrow> Request \<Rightarrow> Params \<Rightarrow> call list \<times> (failure + outcome)" where
  "handler_GET d req ps =
     (let u = url req in
      if legacy_std_prefix req ps then
        ([], Inr (Response_redirect (Obj (u\<lparr>pathname := drop 2 (pathname u)\<rparr>)) (Some 301)))
      else if \<not> isHTML d req then
        handlerRaw d req ps
      else
        (let v = resolve_view u (path ps);
             q = Fetch (resURL v ps) (symbol_param u v) in
         case fetch d (resURL v ps) (symbol_param u v) of
           Inl e \<Rightarrow> ([q], Inl e)
         | Inr res \<Rightarrow>
             if status res = 404 then ([q], Inr (Render None))
             else if status res = 302 then
               (let latestVersion = headers res ''X-Deno-Latest-Version'';
                    mp = getModulePath d (name ps) latestVersion
                           (if path ps \<noteq> [] then Some (''/'' @ path ps) else None) in
                ([q, ConsoleLog mp], Inr (Response_redirect (WithBase mp u) None)))
             else if status res = 301 then
               (let newPath = headers res ''X-Deno-Module-Path'' in
                ([q], Inr (Respond (Response 301
                   [(''Location'', getModulePath d (name ps) (Some (version ps)) newPath)]
                   None))))
             else
               (case json res of
                  None \<Rightarrow> ([q], Inl (Rejected ''res.json()''))
                | Some pg \<Rightarrow>
                    if kind pg = ''no-versions'' then
                      ([q], Inr (Render (Some \<lparr>data = pg, view = v\<rparr>)))
                    else if v = Doc \<and> kind pg = ''file'' then
                      ([q], Inr (Response_redirect
                         (Obj (u\<lparr>searchParams := URLSearchParams_set ''source'' [] (searchParams u)\<rparr>))
                         (Some 301)))
                    else
                      (case extractAltLineNumberReference d (pathname u) of
                         Some ln \<Rightarrow>
                           ([q], Inr (Response_redirect
                              (Obj (u\<lparr>pathname := URL_pathname_setter d u (rest ln),
                                      searchParams :=
                                        URLSearchParams_set ''source'' [] (searchParams u),
                                      hash := ''L'' @ Number_toString d (line ln)\<rparr>))
                              (Some 302)))
                       | None \<Rightarrow> enrich d ps [q] \<lparr>data = pg, view = v\<rparr>))))"

text \<open>
  The page-metadata call \<^verbatim>\<open>handler.GET\<close> makes for a request (line 93), and its
  answer.
\<close>

definition page_call :: "Request \<Rightarrow> Params \<Rightarrow> call" where
  "page_call req ps =
     Fetch (resURL (resolve_view (url req) (path ps)) ps)
       (symbol_param (url req) (resolve_view (url req) (path ps)))"

definition page_answer :: "env \<Rightarrow> Request \<Rightarrow> Params \<Rightarrow> failure + Res" where
  "page_answer d req ps =
     fetch d (resURL (resolve_view (url req) (path ps)) ps)
       (symbol_param (url req) (resolve_view (url req) (path ps)))"

text \<open>Observations on what the handler answers.\<close>

definition permanent_redirect :: "failure + outcome \<Rightarrow> bool" where
  "permanent_redirect r =
     (case r of
        Inr (Redirect t s) \<Rightarrow> s = 301
      | Inr (Respond (Response s h b)) \<Rightarrow> s = 301 \<and> ''Location'' \<in> set (map fst h)
      | _ \<Rightarrow> False)"

definition is_redirect :: "failure + outcome \<Rightarrow> bool" where
  "is_redirect r = (case r of Inr (Redirect t s) \<Rightarrow> True | _ \<Rightarrow> False)"

definition is_page_call :: "call \<Rightarrow> bool" where
  "is_page_call c = (case c of Fetch a b \<Rightarrow> True | _ \<Rightarrow> False)"

section \<open>A concrete environment\<close>

text \<open>
  Modelled from the spec: \<^verbatim>\<open>getModulePath\<close> of \<^verbatim>\<open>util/registry_utils.ts\<close>, a file
  that is not among the sources. Section 6 of the specification gives the route pattern
  \<^verbatim>\<open>/x/<name>[@<version>]/<path...>\<close>, without the \<^verbatim>\<open>/x\<close> for the \<^verbatim>\<open>std\<close> alias. The
  theorems below hold for every \<open>getModulePath\<close>; this one stands for it at concrete
  inputs.
\<close>

definition getModulePath_spec :: "string \<Rightarrow> string option \<Rightarrow> string option \<Rightarrow> string" where
  "getModulePath_spec n v p =
     (if n = ''std'' then [] else ''/x'') @ ''/'' @ n
       @ (case v of None \<Rightarrow> [] | Some s \<Rightarrow> if s = [] then [] else ''@'' @ s)
       @ (case p of None \<Rightarrow> [] | Some s \<Rightarrow> s)"

text \<open>
  Modelled from the spec: \<^verbatim>\<open>extractAltLineNumberReference\<close> of
  \<^verbatim>\<open>util/registry_utils.ts\<close>, not among the sources. Section 4.5 of the specification
  names a legacy line-number token such as an embedded \<^verbatim>\<open>:123\<close>: here a path that ends
  in a colon and decimal digits. The theorems below hold for every such function; this
  one stands for it at concrete inputs.
\<close>

definition digit_value :: "char \<Rightarrow> nat" where
  "digit_value c = length (takeWhile (\<lambda>d. d \<noteq> c) ''0123456789'')"

fun nat_of_digits :: "string \<Rightarrow> nat \<Rightarrow> nat" where
  "nat_of_digits [] acc = acc"
| "nat_of_digits (c # cs) acc = nat_of_digits cs (10 * acc + digit_value c)"

definition extractAlt_spec :: "string \<Rightarrow> LineRef option" where
  "extractAlt_spec p =
     (let ds = rev (takeWhile (\<lambda>c. c \<noteq> CHR '':'') (rev p)) in
      if length ds < length p \<and> ds \<noteq> [] \<and> list_all (\<lambda>c. c \<in> set ''0123456789'') ds
      then Some \<lparr>rest = take (length p - length ds - 1) p, line = nat_of_digits ds 0\<rparr>
      else None)"

text \<open>
  A stand-in for \<^verbatim>\<open>accepts\<close> of the library \<^verbatim>\<open>$oak_commons\<close>, for requests whose
  \<^verbatim>\<open>Accept\<close> header names one media type: \<^verbatim>\<open>text/html\<close> selects the offer of that
  name, anything else the first offer.
\<close>

definition accepts_one :: "Request \<Rightarrow> string list \<Rightarrow> string option" where
  "accepts_one r offered =
     (if accept r = ''text/html'' \<and> ''text/html'' \<in> set offered then Some ''text/html''
      else (case offered of [] \<Rightarrow> None | t # _ \<Rightarrow> Some t))"

text \<open>
  A registry that knows the module \<^verbatim>\<open>oak\<close> with two versions and the module
  \<^verbatim>\<open>husk\<close> with none; \<open>answering r\<close> is that registry with a metadata service that
  answers every page request with \<open>r\<close>. Its path setter keeps the value as given and
  its numbers are printed in decimal, which is what the platform does for the values it
  is used at: a path that begins with \<^verbatim>\<open>/\<close>, of letters, digits, \<^verbatim>\<open>@\<close> and dots, with
  no segment \<^verbatim>\<open>.\<close> or \<^verbatim>\<open>..\<close>, and the number 12.
\<close>

definition registry :: env where
  "registry =
     \<lparr>accepts = accepts_one,
      fetch = (\<lambda>a s. Inl (Rejected ''fetch'')),
      getModulePath = getModulePath_spec,
      extractAltLineNumberReference = extractAlt_spec,
      getVersionList = (\<lambda>n.
        if n = ''oak'' then Inr (Some \<lparr>latest = Some ''v12.6.1'', versions = [''v12.6.1'', ''v12.6.0'']\<rparr>)
        else if n = ''husk'' then Inr (Some \<lparr>latest = None, versions = []\<rparr>)
        else Inr None),
      fetchSource = (\<lambda>n v p. Inr (Response 200 RAW_HEADERS (Some ''export {};''))),
      getReadme = (\<lambda>n v r. Inr (Content ''# oak'')),
      getRawFile = (\<lambda>n v p. Inr (Content ''export {};'')),
      URL_pathname_setter = (\<lambda>u v. v),
      Number_toString = string_of_nat\<rparr>"

definition answering :: "Res \<Rightarrow> env" where
  "answering r = registry\<lparr>fetch := (\<lambda>a s. Inr r)\<rparr>"

definition ok_page :: "string \<Rightarrow> Res" where
  "ok_page k =
     \<lparr>status = 200, headers = Map.empty,
      json = Some \<lparr>kind = k, readme = None, readmeFile = None, page_file = None\<rparr>\<rparr>"

definition signal :: "nat \<Rightarrow> string \<Rightarrow> string \<Rightarrow> Res" where
  "signal s h v = \<lparr>status = s, headers = [h \<mapsto> v], json = None\<rparr>"

text \<open>
  A request to \<^verbatim>\<open>https://deno.land\<close>: its path, its query as text and as pairs, and
  its \<^verbatim>\<open>Accept\<close> header.
\<close>

definition deno_land :: "string \<Rightarrow> string \<Rightarrow> (string \<times> string) list \<Rightarrow> string \<Rightarrow> Request" where
  "deno_land p qt q a =
     \<lparr>req_url = ''https://deno.land'' @ p @ qt,
      url = \<lparr>origin = ''https://deno.land'', pathname = p, searchParams = q, hash = []\<rparr>,
      accept = a\<rparr>"

definition module_params :: "string \<Rightarrow> string \<Rightarrow> string \<Rightarrow> Params" where
  "module_params n v p = \<lparr>name = n, version = v, path = p\<rparr>"

section \<open>The handler, path by path\<close>

text \<open>
  Past the two guards, and once the metadata service has answered, \<^verbatim>\<open>handler.GET\<close> is
  a decision on the answer alone. When the service does not answer, the failure is the
  handler's.
\<close>

lemma rendered_unfold:
  assumes "\<not> legacy_std_prefix req ps" and "isHTML d req" and "page_answer d req ps = Inr res"
  shows "handler_GET d req ps =
     (let u = url req; v = resolve_view u (path ps); q = page_call req ps in
      if status res = 404 then ([q], Inr (Render None))
      else if status res = 302 then
        ([q, ConsoleLog (getModulePath d (name ps) (headers res ''X-Deno-Latest-Version'')
                 (if path ps \<noteq> [] then Some (''/'' @ path ps) else None))],
         Inr (Redirect (WithBase (getModulePath d (name ps) (headers res ''X-Deno-Latest-Version'')
                 (if path ps \<noteq> [] then Some (''/'' @ path ps) else None)) u) 302))
      else if status res = 301 then
        ([q], Inr (Respond (Response 301
           [(''Location'', getModulePath d (name ps) (Some (version ps))
               (headers res ''X-Deno-Module-Path''))] None)))
      else
        (case json res of
           None \<Rightarrow> ([q], Inl (Rejected ''res.json()''))
         | Some pg \<Rightarrow>
             if kind pg = ''no-versions'' then ([q], Inr (Render (Some \<lparr>data = pg, view = v\<rparr>)))
             else if v = Doc \<and> kind pg = ''file'' then
               ([q], Inr (Redirect
                  (Obj (u\<lparr>searchParams := URLSearchParams_set ''source'' [] (searchParams u)\<rparr>)) 301))
             else
               (case extractAltLineNumberReference d (pathname u) of
                  Some ln \<Rightarrow>
                    ([q], Inr (Redirect
                       (Obj (u\<lparr>pathname := URL_pathname_setter d u (rest ln),
                               searchParams := URLSearchParams_set ''source'' [] (searchParams u),
                               hash := ''L'' @ Number_toString d (line ln)\<rparr>)) 302))
                | None \<Rightarrow> enrich d ps [q] \<lparr>data = pg, view = v\<rparr>)))"
  using assms
  by (simp add: handler_GET_def page_answer_def page_call_def Let_def Response_redirect_def
      split: option.split)

lemma rendered_failed:
  assumes "\<not> legacy_std_prefix req ps" and "isHTML d req" and "page_answer d req ps = Inl e"
  shows "handler_GET d req ps = ([page_call req ps], Inl e)"
  using assms by (simp add: handler_GET_def page_answer_def page_call_def Let_def)

text \<open>
  Once the answer is a page that is neither \<^verbatim>\<open>no-versions\<close> nor a file asked for as
  documentation, what is left is the line-number reference and the enrichment.
\<close>

lemma rendered_past_view:
  assumes "\<not> legacy_std_prefix req ps" and "isHTML d req"
    and "page_answer d req ps = Inr res"
    and "status res \<noteq> 404" and "status res \<noteq> 302" and "status res \<noteq> 301"
    and "json res = Some pg" and "kind pg \<noteq> ''no-versions''"
    and "\<not> (resolve_view (url req) (path ps) = Doc \<and> kind pg = ''file'')"
  shows "handler_GET d req ps =
     (case extractAltLineNumberReference d (pathname (url req)) of
        Some ln \<Rightarrow>
          ([page_call req ps],
           Inr (Redirect
             (Obj ((url req)\<lparr>pathname := URL_pathname_setter d (url req) (rest ln),
                     searchParams := URLSearchParams_set ''source'' [] (searchParams (url req)),
                     hash := ''L'' @ Number_toString d (line ln)\<rparr>)) 302))
      | None \<Rightarrow>
          enrich d ps [page_call req ps] \<lparr>data = pg, view = resolve_view (url req) (path ps)\<rparr>)"
proof (cases "resolve_view (url req) (path ps) = Doc")
  case True
  with assms have "kind pg \<noteq> ''file''"
    by simp
  with assms show ?thesis
    by (simp add: rendered_unfold Let_def split: option.split)
next
  case False
  with assms show ?thesis
    by (simp add: rendered_unfold Let_def split: option.split)
qed

text \<open>A request that is not for a rendered page is \<^verbatim>\<open>handlerRaw\<close>'s.\<close>

lemma raw_unfold:
  assumes "\<not> legacy_std_prefix req ps" and "\<not> isHTML d req"
  shows "handler_GET d req ps = handlerRaw d req ps"
  using assms by (simp add: handler_GET_def Let_def)

lemma handlerRaw_calls:
  "fst (handlerRaw d req ps) =
     [if version ps = [] then GetVersionList (name ps)
      else FetchSource (name ps) (version ps) (path ps)]"
  by (simp add: handlerRaw_def Let_def split: sum.split option.split)

lemma handlerRaw_no_redirect: "snd (handlerRaw d req ps) \<noteq> Inr (Redirect t s)"
  by (simp add: handlerRaw_def Let_def split: sum.split option.split)

text \<open>
  The enrichment keeps the calls made so far, and either hands a page of the same view
  and kind to rendering or fails with the failure of the one fetch it made.
\<close>

lemma enrich_hd:
  "fst (enrich d ps (c # cs) dt) \<noteq> [] \<and> hd (fst (enrich d ps (c # cs) dt)) = c"
  by (simp add: enrich_def Let_def split: sum.split)

lemma enrich_outcome:
  "(\<exists>dd. snd (enrich d ps cs dt) = Inr (Render (Some dd)) \<and> view dd = view dt
        \<and> kind (data dd) = kind (data dt))
   \<or> (\<exists>e. snd (enrich d ps cs dt) = Inl e
        \<and> ((\<exists>r. getReadme d (name ps) (version ps) r = Inl e)
           \<or> (\<exists>p. getRawFile d (name ps) (version ps) p = Inl e)))"
proof (cases "kind (data dt) = ''modinfo'' \<and> truthy (readme (data dt))")
  case True
  then show ?thesis
    by (cases "getReadme d (name ps) (version ps) (the (readme (data dt)))")
      (auto simp add: enrich_def)
next
  case False
  show ?thesis
  proof (cases "view dt = Source \<and> kind (data dt) = ''file''")
    case True
    with False show ?thesis
      by (cases "getRawFile d (name ps) (version ps) (if path ps \<noteq> [] then ''/'' @ path ps else [])")
        (auto simp add: enrich_def Let_def)
  next
    case no: False
    with False show ?thesis
      by (auto simp add: enrich_def)
  qed
qed

lemma enrich_no_redirect: "snd (enrich d ps cs dt) \<noteq> Inr (Redirect t s)"
  using enrich_outcome [of d ps cs dt] by auto

lemma rendered_first_call:
  assumes "\<not> legacy_std_prefix req ps" and "isHTML d req"
  shows "\<exists>cs. fst (handler_GET d req ps) = page_call req ps # cs"
proof -
  have "fst (handler_GET d req ps) \<noteq> [] \<and> hd (fst (handler_GET d req ps)) = page_call req ps"
  proof (cases "page_answer d req ps")
    case (Inl e)
    with assms show ?thesis
      by (simp add: rendered_failed)
  next
    case (Inr res)
    with assms show ?thesis
      by (simp add: rendered_unfold Let_def enrich_hd split: option.split)
  qed
  then show ?thesis
    by (cases "fst (handler_GET d req ps)") simp_all
qed

lemma rendered_view:
  assumes "\<not> legacy_std_prefix req ps" and "isHTML d req"
    and "snd (handler_GET d req ps) = Inr (Render (Some dd))"
  shows "view dd = resolve_view (url req) (path ps)"
proof (cases "page_answer d req ps")
  case (Inl e)
  with assms show ?thesis
    by (simp add: rendered_failed)
next
  case (Inr res)
  have e: "\<And>pg. snd (enrich d ps [page_call req ps]
      \<lparr>data = pg, view = resolve_view (url req) (path ps)\<rparr>) = Inr (Render (Some dd)) \<Longrightarrow>
      view dd = resolve_view (url req) (path ps)"
    subgoal for pg
      using enrich_outcome [of d ps "[page_call req ps]"
          "\<lparr>data = pg, view = resolve_view (url req) (path ps)\<rparr>"]
      by auto
    done
  show ?thesis
    using assms Inr e
    by (auto simp add: rendered_unfold Let_def split: option.splits if_splits)
qed

section \<open>Search parameters\<close>

lemma doc_view_has_no_source:
  "resolve_view u p = Doc \<Longrightarrow> \<not> URLSearchParams_has ''source'' (searchParams u)"
  by (simp add: resolve_view_def split: if_splits)

lemma set_first_has:
  "k \<in> fst ` set ps \<Longrightarrow> k \<in> fst ` set (set_first k v ps)"
  by (induction ps) auto

lemma set_first_idem: "set_first k v (set_first k v ps) = set_first k v ps"
  by (induction ps) auto

lemma set_first_append_new:
  "k \<notin> fst ` set ps \<Longrightarrow> set_first k v (ps @ [(k, w)]) = ps @ [(k, v)]"
  by (induction ps) auto

lemma has_after_set: "URLSearchParams_has k (URLSearchParams_set k v ps)"
  by (simp add: URLSearchParams_has_def URLSearchParams_set_def set_first_has)

lemma set_idem:
  "URLSearchParams_set k v (URLSearchParams_set k v ps) = URLSearchParams_set k v ps"
proof (cases "URLSearchParams_has k ps")
  case True
  then show ?thesis
    using has_after_set [of k v ps]
    by (simp add: URLSearchParams_set_def set_first_idem)
next
  case False
  then show ?thesis
    using has_after_set [of k v ps]
    by (simp add: URLSearchParams_set_def URLSearchParams_has_def set_first_append_new)
qed

lemma source_view_no_permanent_redirect:
  assumes "\<not> legacy_std_prefix req ps" and "resolve_view (url req) (path ps) = Source"
  shows "snd (handler_GET d req ps) \<noteq> Inr (Redirect t 301)"
proof (cases "isHTML d req")
  case False
  with assms show ?thesis
    by (simp add: raw_unfold handlerRaw_no_redirect)
next
  case True
  show ?thesis
  proof (cases "page_answer d req ps")
    case (Inl e)
    with assms True show ?thesis
      by (simp add: rendered_failed)
  next
    case (Inr res)
    with assms True show ?thesis
      by (simp add: rendered_unfold Let_def enrich_no_redirect split: option.split)
  qed
qed

lemma string_of_nat_12: "string_of_nat 12 = ''12''"
  by (simp add: string_of_nat.simps)

section \<open>Version defaulting\<close>

text \<open>
  Claim C1 reads: a rendered request without a version, for which the metadata service
  answers 302 with the latest version, gets a permanent 301 redirect to the
  version-qualified address, with its sub-path and its query string. At the request
  \<^verbatim>\<open>/x/oak/mod.ts?foo=bar\<close> the answer is a redirect with status 302, not 301, and its
  address \<^verbatim>\<open>new URL("/x/oak@v12.6.1/mod.ts", url)\<close> has no query.
\<close>

theorem implicit_latest_not_permanent_counterexample:
  "isHTML (answering (signal 302 ''X-Deno-Latest-Version'' ''v12.6.1''))
      (deno_land ''/x/oak/mod.ts'' ''?foo=bar'' [(''foo'', ''bar'')] ''text/html'')
   \<and> page_answer (answering (signal 302 ''X-Deno-Latest-Version'' ''v12.6.1''))
      (deno_land ''/x/oak/mod.ts'' ''?foo=bar'' [(''foo'', ''bar'')] ''text/html'')
      (module_params ''oak'' [] ''mod.ts'') = Inr (signal 302 ''X-Deno-Latest-Version'' ''v12.6.1'')
   \<and> snd (handler_GET (answering (signal 302 ''X-Deno-Latest-Version'' ''v12.6.1''))
         (deno_land ''/x/oak/mod.ts'' ''?foo=bar'' [(''foo'', ''bar'')] ''text/html'')
         (module_params ''oak'' [] ''mod.ts'')) =
       Inr (Redirect (WithBase ''/x/oak@v12.6.1/mod.ts''
              \<lparr>origin = ''https://deno.land'', pathname = ''/x/oak/mod.ts'',
               searchParams = [(''foo'', ''bar'')], hash = []\<rparr>) 302)
   \<and> \<not> permanent_redirect
        (snd (handler_GET (answering (signal 302 ''X-Deno-Latest-Version'' ''v12.6.1''))
          (deno_land ''/x/oak/mod.ts'' ''?foo=bar'' [(''foo'', ''bar'')] ''text/html'')
          (module_params ''oak'' [] ''mod.ts'')))
   \<and> target_query (WithBase ''/x/oak@v12.6.1/mod.ts''
              \<lparr>origin = ''https://deno.land'', pathname = ''/x/oak/mod.ts'',
               searchParams = [(''foo'', ''bar'')], hash = []\<rparr>) = Some []"
  by (simp add: handler_GET_def legacy_std_prefix_def isHTML_def answering_def registry_def
      accepts_one_def deno_land_def module_params_def signal_def Let_def Response_redirect_def
      getModulePath_spec_def permanent_redirect_def target_query_def absolute_path_ref_def
      page_answer_def)

text \<open>
  Claim C1, as the handler has it. For a rendered request for which the metadata service
  answers 302 with the header \<^verbatim>\<open>X-Deno-Latest-Version\<close>, the handler logs the module
  path of the name, that version and the sub-path (with a leading \<^verbatim>\<open>/\<close>, or none when
  the sub-path is empty) and answers with \<^verbatim>\<open>Response.redirect\<close> to that path resolved
  against the request's address, with no status given: a 302. The sub-path is kept.
\<close>

theorem implicit_latest_redirect_302:
  assumes "\<not> legacy_std_prefix req ps" and "isHTML d req"
    and "page_answer d req ps = Inr res" and "status res = 302"
    and "headers res ''X-Deno-Latest-Version'' = Some lv"
  shows "handler_GET d req ps =
           ([page_call req ps,
             ConsoleLog (getModulePath d (name ps) (Some lv)
               (if path ps \<noteq> [] then Some (''/'' @ path ps) else None))],
            Inr (Redirect
              (WithBase (getModulePath d (name ps) (Some lv)
                 (if path ps \<noteq> [] then Some (''/'' @ path ps) else None)) (url req)) 302))"
  using assms by (simp add: rendered_unfold Let_def)

theorem implicit_latest_redirect_302_witness:
  "\<not> legacy_std_prefix (deno_land ''/x/oak/mod.ts'' ''?foo=bar'' [(''foo'', ''bar'')] ''text/html'')
        (module_params ''oak'' [] ''mod.ts'')
   \<and> isHTML (answering (signal 302 ''X-Deno-Latest-Version'' ''v12.6.1''))
        (deno_land ''/x/oak/mod.ts'' ''?foo=bar'' [(''foo'', ''bar'')] ''text/html'')
   \<and> page_answer (answering (signal 302 ''X-Deno-Latest-Version'' ''v12.6.1''))
        (deno_land ''/x/oak/mod.ts'' ''?foo=bar'' [(''foo'', ''bar'')] ''text/html'')
        (module_params ''oak'' [] ''mod.ts'') = Inr (signal 302 ''X-Deno-Latest-Version'' ''v12.6.1'')
   \<and> status (signal 302 ''X-Deno-Latest-Version'' ''v12.6.1'') = 302
   \<and> headers (signal 302 ''X-Deno-Latest-Version'' ''v12.6.1'') ''X-Deno-Latest-Version''
        = Some ''v12.6.1''
   \<and> handler_GET (answering (signal 302 ''X-Deno-Latest-Version'' ''v12.6.1''))
        (deno_land ''/x/oak/mod.ts'' ''?foo=bar'' [(''foo'', ''bar'')] ''text/html'')
        (module_params ''oak'' [] ''mod.ts'') =
       ([Fetch ''https://apiland.deno.dev/v2/pages/mod/doc/oak/__latest__/mod.ts'' None,
         ConsoleLog ''/x/oak@v12.6.1/mod.ts''],
        Inr (Redirect (WithBase ''/x/oak@v12.6.1/mod.ts''
              (url (deno_land ''/x/oak/mod.ts'' ''?foo=bar'' [(''foo'', ''bar'')] ''text/html''))) 302))"
proof -
  let ?d = "answering (signal 302 ''X-Deno-Latest-Version'' ''v12.6.1'')"
  let ?r = "deno_land ''/x/oak/mod.ts'' ''?foo=bar'' [(''foo'', ''bar'')] ''text/html''"
  let ?p = "module_params ''oak'' [] ''mod.ts''"
  let ?s = "signal 302 ''X-Deno-Latest-Version'' ''v12.6.1''"
  have h1: "\<not> legacy_std_prefix ?r ?p"
    by (simp add: legacy_std_prefix_def module_params_def)
  have h2: "isHTML ?d ?r"
    by (simp add: isHTML_def answering_def registry_def accepts_one_def deno_land_def)
  have h3: "page_answer ?d ?r ?p = Inr ?s"
    by (simp add: page_answer_def answering_def)
  have h4: "status ?s = 302"
    by (simp add: signal_def)
  have h5: "headers ?s ''X-Deno-Latest-Version'' = Some ''v12.6.1''"
    by (simp add: signal_def)
  have g: "getModulePath ?d (name ?p) (Some ''v12.6.1'')
             (if path ?p \<noteq> [] then Some (''/'' @ path ?p) else None) = ''/x/oak@v12.6.1/mod.ts''"
    by (simp add: answering_def registry_def getModulePath_spec_def module_params_def)
  have pc: "page_call ?r ?p =
      Fetch ''https://apiland.deno.dev/v2/pages/mod/doc/oak/__latest__/mod.ts'' None"
    by (simp add: page_call_def resolve_view_def URLSearchParams_has_def deno_land_def
        module_params_def resURL_def symbol_param_def URLSearchParams_get_def)
  from implicit_latest_redirect_302 [OF h1 h2 h3 h4 h5] show ?thesis
    using h1 h2 h3 h4 h5 by (simp add: g pc)
qed

section \<open>View canonicalisation\<close>

text \<open>
  Claim C2. For a rendered request whose view is Doc and for which the metadata service
  answers with a page of kind \<^verbatim>\<open>file\<close>, the handler makes the one page call and answers
  with one 301 redirect to the request's address with the pair \<^verbatim>\<open>source\<close> (empty value)
  added at the end of its search parameters; origin, path and fragment are those of the
  request.
\<close>

theorem doc_file_redirects_to_source:
  assumes "\<not> legacy_std_prefix req ps" and "isHTML d req"
    and "resolve_view (url req) (path ps) = Doc"
    and "page_answer d req ps = Inr res"
    and "status res \<noteq> 404" and "status res \<noteq> 302" and "status res \<noteq> 301"
    and "json res = Some pg" and "kind pg = ''file''"
  shows "handler_GET d req ps =
           ([page_call req ps],
            Inr (Redirect
              (Obj ((url req)\<lparr>searchParams := searchParams (url req) @ [(''source'', [])]\<rparr>)) 301))"
proof -
  have "URLSearchParams_set ''source'' [] (searchParams (url req)) =
          searchParams (url req) @ [(''source'', [])]"
    using doc_view_has_no_source [OF assms(3)] by (simp add: URLSearchParams_set_def)
  then show ?thesis
    using assms by (simp add: rendered_unfold Let_def)
qed

theorem doc_file_redirects_to_source_witness:
  "\<not> legacy_std_prefix (deno_land ''/x/oak@v12.6.1/LICENSE'' ''?doc'' [(''doc'', [])] ''text/html'')
        (module_params ''oak'' ''v12.6.1'' ''LICENSE'')
   \<and> isHTML (answering (ok_page ''file''))
        (deno_land ''/x/oak@v12.6.1/LICENSE'' ''?doc'' [(''doc'', [])] ''text/html'')
   \<and> resolve_view (url (deno_land ''/x/oak@v12.6.1/LICENSE'' ''?doc'' [(''doc'', [])] ''text/html''))
        (path (module_params ''oak'' ''v12.6.1'' ''LICENSE'')) = Doc
   \<and> page_answer (answering (ok_page ''file''))
        (deno_land ''/x/oak@v12.6.1/LICENSE'' ''?doc'' [(''doc'', [])] ''text/html'')
        (module_params ''oak'' ''v12.6.1'' ''LICENSE'') = Inr (ok_page ''file'')
   \<and> status (ok_page ''file'') = 200
   \<and> json (ok_page ''file'')
        = Some \<lparr>kind = ''file'', readme = None, readmeFile = None, page_file = None\<rparr>
   \<and> handler_GET (answering (ok_page ''file''))
        (deno_land ''/x/oak@v12.6.1/LICENSE'' ''?doc'' [(''doc'', [])] ''text/html'')
        (module_params ''oak'' ''v12.6.1'' ''LICENSE'') =
       ([Fetch ''https://apiland.deno.dev/v2/pages/mod/doc/oak/v12.6.1/LICENSE'' None],
        Inr (Redirect (Obj \<lparr>origin = ''https://deno.land'', pathname = ''/x/oak@v12.6.1/LICENSE'',
               searchParams = [(''doc'', []), (''source'', [])], hash = []\<rparr>) 301))"
proof -
  let ?r = "deno_land ''/x/oak@v12.6.1/LICENSE'' ''?doc'' [(''doc'', [])] ''text/html''"
  let ?p = "module_params ''oak'' ''v12.6.1'' ''LICENSE''"
  let ?d = "answering (ok_page ''file'')"
  let ?pg = "\<lparr>kind = ''file'', readme = None, readmeFile = None, page_file = None\<rparr>"
  have h1: "\<not> legacy_std_prefix ?r ?p"
    by (simp add: legacy_std_prefix_def module_params_def)
  have h2: "isHTML ?d ?r"
    by (simp add: isHTML_def answering_def registry_def accepts_one_def deno_land_def)
  have h3: "resolve_view (url ?r) (path ?p) = Doc"
    by (simp add: resolve_view_def URLSearchParams_has_def deno_land_def module_params_def)
  have h4: "page_answer ?d ?r ?p = Inr (ok_page ''file'')"
    by (simp add: page_answer_def answering_def)
  have h5: "status (ok_page ''file'') \<noteq> 404" "status (ok_page ''file'') \<noteq> 302"
    "status (ok_page ''file'') \<noteq> 301" "status (ok_page ''file'') = 200"
    by (simp_all add: ok_page_def)
  have h6: "json (ok_page ''file'') = Some ?pg"
    by (simp add: ok_page_def)
  have h7: "kind ?pg = ''file''"
    by simp
  have pc: "page_call ?r ?p =
      Fetch ''https://apiland.deno.dev/v2/pages/mod/doc/oak/v12.6.1/LICENSE'' None"
    by (simp add: page_call_def h3 resURL_def symbol_param_def URLSearchParams_get_def)
      (simp add: deno_land_def module_params_def)
  from doc_file_redirects_to_source [OF h1 h2 h3 h4 h5(1) h5(2) h5(3) h6 h7] show ?thesis
    using h1 h2 h3 h4 h5(4) h6 pc by (simp add: deno_land_def)
qed

section \<open>The raw path\<close>

text \<open>
  Claim C3 reads: every request whose content negotiation does not select
  \<^verbatim>\<open>text/html\<close> is answered by the raw handler alone, with exactly one upstream call.
  The request \<^verbatim>\<open>/x/std@0.150.0/fmt/colors.ts\<close> with
  \<^verbatim>\<open>Accept: application/typescript\<close> is such a request, and it is answered by the
  redirect of line 61 with no call at all, where the raw handler would have fetched the
  file.
\<close>

theorem std_prefix_skips_raw_handler_counterexample:
  "\<not> isHTML registry (deno_land ''/x/std@0.150.0/fmt/colors.ts'' [] [] ''application/typescript'')
   \<and> handler_GET registry
        (deno_land ''/x/std@0.150.0/fmt/colors.ts'' [] [] ''application/typescript'')
        (module_params ''std'' ''0.150.0'' ''fmt/colors.ts'') =
       ([], Inr (Redirect (Obj \<lparr>origin = ''https://deno.land'',
               pathname = ''/std@0.150.0/fmt/colors.ts'', searchParams = [], hash = []\<rparr>) 301))
   \<and> handlerRaw registry
        (deno_land ''/x/std@0.150.0/fmt/colors.ts'' [] [] ''application/typescript'')
        (module_params ''std'' ''0.150.0'' ''fmt/colors.ts'') =
       ([FetchSource ''std'' ''0.150.0'' ''fmt/colors.ts''],
        Inr (Respond (Response 200 [(''Access-Control-Allow-Origin'', ''*'')] (Some ''export {};''))))"
  by (simp add: handler_GET_def handlerRaw_def legacy_std_prefix_def isHTML_def registry_def
      accepts_one_def deno_land_def module_params_def Let_def Response_redirect_def RAW_HEADERS_def)

text \<open>
  Claim C3, as the handler has it. For every request that is not caught by the test of
  line 61 (name \<^verbatim>\<open>std\<close>, path beginning with \<^verbatim>\<open>/x\<close>) and whose content negotiation
  does not select \<^verbatim>\<open>text/html\<close>, the answer and the calls are those of \<^verbatim>\<open>handlerRaw\<close>;
  exactly one call is made, the version-list lookup when the version is empty and the
  content fetch otherwise; no page-metadata call is made.
\<close>

theorem raw_path_single_call:
  assumes "\<not> legacy_std_prefix req ps" and "\<not> isHTML d req"
  shows "handler_GET d req ps = handlerRaw d req ps
         \<and> fst (handler_GET d req ps) =
             [if version ps = [] then GetVersionList (name ps)
              else FetchSource (name ps) (version ps) (path ps)]
         \<and> \<not> list_ex is_page_call (fst (handler_GET d req ps))"
  using assms by (simp add: raw_unfold handlerRaw_calls is_page_call_def)

theorem raw_path_single_call_witness:
  "\<not> legacy_std_prefix (deno_land ''/x/oak/mod.ts'' [] [] ''application/typescript'')
        (module_params ''oak'' [] ''mod.ts'')
   \<and> \<not> isHTML registry (deno_land ''/x/oak/mod.ts'' [] [] ''application/typescript'')
   \<and> fst (handler_GET registry (deno_land ''/x/oak/mod.ts'' [] [] ''application/typescript'')
        (module_params ''oak'' [] ''mod.ts'')) = [GetVersionList ''oak'']
   \<and> \<not> legacy_std_prefix (deno_land ''/x/oak@v12.6.1/mod.ts'' [] [] ''application/typescript'')
        (module_params ''oak'' ''v12.6.1'' ''mod.ts'')
   \<and> \<not> isHTML registry (deno_land ''/x/oak@v12.6.1/mod.ts'' [] [] ''application/typescript'')
   \<and> fst (handler_GET registry (deno_land ''/x/oak@v12.6.1/mod.ts'' [] [] ''application/typescript'')
        (module_params ''oak'' ''v12.6.1'' ''mod.ts'')) = [FetchSource ''oak'' ''v12.6.1'' ''mod.ts'']"
proof -
  let ?r = "deno_land ''/x/oak/mod.ts'' [] [] ''application/typescript''"
  let ?p = "module_params ''oak'' [] ''mod.ts''"
  let ?r' = "deno_land ''/x/oak@v12.6.1/mod.ts'' [] [] ''application/typescript''"
  let ?p' = "module_params ''oak'' ''v12.6.1'' ''mod.ts''"
  have h1: "\<not> legacy_std_prefix ?r ?p" "\<not> legacy_std_prefix ?r' ?p'"
    by (simp_all add: legacy_std_prefix_def module_params_def)
  have h2: "\<not> isHTML registry ?r" "\<not> isHTML registry ?r'"
    by (simp_all add: isHTML_def registry_def accepts_one_def deno_land_def)
  have c1: "fst (handler_GET registry ?r ?p) = [GetVersionList ''oak'']"
    using conjunct1 [OF conjunct2 [OF raw_path_single_call [OF h1(1) h2(1)]]]
    by (simp add: module_params_def)
  have c2: "fst (handler_GET registry ?r' ?p') = [FetchSource ''oak'' ''v12.6.1'' ''mod.ts'']"
    using conjunct1 [OF conjunct2 [OF raw_path_single_call [OF h1(2) h2(2)]]]
    by (simp add: module_params_def)
  from h1 h2 c1 c2 show ?thesis
    by blast
qed

text \<open>
  Claim C4. For a raw request with an empty version, \<^verbatim>\<open>handlerRaw\<close> looks the version
  list up once. When there is no list, it answers 404 with the text that the module
  does not exist; when the list has no latest version, 404 with the text that the module
  has no latest version; otherwise 302 with the \<^verbatim>\<open>Location\<close> of the module path at the
  latest version (the sub-path with a leading \<^verbatim>\<open>/\<close>, or empty) and an
  \<^verbatim>\<open>x-deno-warning\<close> header that names the latest version and the requested address.
\<close>

theorem handlerRaw_empty_version:
  assumes "version ps = []"
  shows "(getVersionList d (name ps) = Inr None \<longrightarrow>
            handlerRaw d req ps =
              ([GetVersionList (name ps)],
               Inr (Respond (Response 404 RAW_HEADERS
                 (Some (''The module '' @ [CHR 0x27] @ name ps @ [CHR 0x27] @ '' does not exist''))))))
       \<and> (\<forall>vl. getVersionList d (name ps) = Inr (Some vl) \<and> latest vl = None \<longrightarrow>
            handlerRaw d req ps =
              ([GetVersionList (name ps)],
               Inr (Respond (Response 404 RAW_HEADERS
                 (Some (''The module '' @ [CHR 0x27] @ name ps @ [CHR 0x27]
                    @ '' has no latest version.''))))))
       \<and> (\<forall>vl l. getVersionList d (name ps) = Inr (Some vl) \<and> latest vl = Some l \<longrightarrow>
            handlerRaw d req ps =
              ([GetVersionList (name ps)],
               Inr (Respond (Response 302
                 (RAW_HEADERS @
                   [(''Location'', getModulePath d (name ps) (Some l)
                       (Some (if path ps \<noteq> [] then ''/'' @ path ps else []))),
                    (''x-deno-warning'',
                     ''Implicitly using latest version ('' @ l @ '') for '' @ req_url req)])
                 None))))"
  using assms by (auto simp add: handlerRaw_def Let_def)

theorem handlerRaw_empty_version_witness:
  "version (module_params ''nope'' [] ''mod.ts'') = []
   \<and> getVersionList registry (name (module_params ''nope'' [] ''mod.ts'')) = Inr None
   \<and> handlerRaw registry (deno_land ''/x/nope/mod.ts'' [] [] ''*/*'') (module_params ''nope'' [] ''mod.ts'')
       = ([GetVersionList ''nope''],
          Inr (Respond (Response 404 [(''Access-Control-Allow-Origin'', ''*'')]
            (Some (''The module '' @ [CHR 0x27] @ ''nope'' @ [CHR 0x27] @ '' does not exist'')))))
   \<and> getVersionList registry (name (module_params ''husk'' [] ''mod.ts''))
       = Inr (Some \<lparr>latest = None, versions = []\<rparr>)
   \<and> handlerRaw registry (deno_land ''/x/husk/mod.ts'' [] [] ''*/*'') (module_params ''husk'' [] ''mod.ts'')
       = ([GetVersionList ''husk''],
          Inr (Respond (Response 404 [(''Access-Control-Allow-Origin'', ''*'')]
            (Some (''The module '' @ [CHR 0x27] @ ''husk'' @ [CHR 0x27] @ '' has no latest version.'')))))
   \<and> getVersionList registry (name (module_params ''oak'' [] ''mod.ts''))
       = Inr (Some \<lparr>latest = Some ''v12.6.1'', versions = [''v12.6.1'', ''v12.6.0'']\<rparr>)
   \<and> handlerRaw registry (deno_land ''/x/oak/mod.ts'' [] [] ''*/*'') (module_params ''oak'' [] ''mod.ts'')
       = ([GetVersionList ''oak''],
          Inr (Respond (Response 302
            [(''Access-Control-Allow-Origin'', ''*''),
             (''Location'', ''/x/oak@v12.6.1/mod.ts''),
             (''x-deno-warning'',
              ''Implicitly using latest version (v12.6.1) for https://deno.land/x/oak/mod.ts'')]
            None)))"
proof -
  let ?r1 = "deno_land ''/x/nope/mod.ts'' [] [] ''*/*''"
  let ?r2 = "deno_land ''/x/husk/mod.ts'' [] [] ''*/*''"
  let ?r3 = "deno_land ''/x/oak/mod.ts'' [] [] ''*/*''"
  let ?p1 = "module_params ''nope'' [] ''mod.ts''"
  let ?p2 = "module_params ''husk'' [] ''mod.ts''"
  let ?p3 = "module_params ''oak'' [] ''mod.ts''"
  have v: "version ?p1 = []" "version ?p2 = []" "version ?p3 = []"
    by (simp_all add: module_params_def)
  have l1: "getVersionList registry (name ?p1) = Inr None"
    by (simp add: registry_def module_params_def)
  have l2: "getVersionList registry (name ?p2) = Inr (Some \<lparr>latest = None, versions = []\<rparr>)"
    by (simp add: registry_def module_params_def)
  have l3: "getVersionList registry (name ?p3)
      = Inr (Some \<lparr>latest = Some ''v12.6.1'', versions = [''v12.6.1'', ''v12.6.0'']\<rparr>)"
    by (simp add: registry_def module_params_def)
  have g: "getModulePath registry ''oak'' (Some ''v12.6.1'') (Some ''/mod.ts'') = ''/x/oak@v12.6.1/mod.ts''"
    by (simp add: registry_def getModulePath_spec_def)
  from handlerRaw_empty_version [OF v(1), of registry ?r1]
    handlerRaw_empty_version [OF v(2), of registry ?r2]
    handlerRaw_empty_version [OF v(3), of registry ?r3]
  show ?thesis
    using v l1 l2 l3 g by (simp add: module_params_def deno_land_def RAW_HEADERS_def)
qed

section \<open>Name normalisation\<close>

text \<open>
  Claim C5. A request whose module name is \<^verbatim>\<open>std\<close> and whose path begins with
  \<^verbatim>\<open>/x\<close> is answered with a 301 redirect to the same address with the first two
  characters of the path dropped, so that the rest of the path is kept. No call is made,
  and the environment (the content negotiation, the metadata service) has no part in the
  answer: the redirect comes before negotiation, view classification and any upstream
  call.
\<close>

theorem std_legacy_prefix_redirect:
  assumes "name ps = ''std''" and "take 2 (pathname (url req)) = ''/x''"
  shows "handler_GET d req ps =
           ([], Inr (Redirect (Obj ((url req)\<lparr>pathname := drop 2 (pathname (url req))\<rparr>)) 301))
         \<and> pathname (url req) = ''/x'' @ drop 2 (pathname (url req))"
proof -
  have "legacy_std_prefix req ps"
    using assms by (simp add: legacy_std_prefix_def)
  then have "handler_GET d req ps =
      ([], Inr (Redirect (Obj ((url req)\<lparr>pathname := drop 2 (pathname (url req))\<rparr>)) 301))"
    by (simp add: handler_GET_def Let_def Response_redirect_def)
  moreover have "take 2 (pathname (url req)) @ drop 2 (pathname (url req)) = pathname (url req)"
    by (rule append_take_drop_id)
  ultimately show ?thesis
    using assms(2) by simp
qed

theorem std_legacy_prefix_redirect_witness:
  "name (module_params ''std'' [] ''fmt/testing.ts'') = ''std''
   \<and> take 2 (pathname (url (deno_land ''/x/std/fmt/testing.ts'' [] [] ''*/*''))) = ''/x''
   \<and> handler_GET registry (deno_land ''/x/std/fmt/testing.ts'' [] [] ''*/*'')
        (module_params ''std'' [] ''fmt/testing.ts'') =
       ([], Inr (Redirect (Obj \<lparr>origin = ''https://deno.land'', pathname = ''/std/fmt/testing.ts'',
                               searchParams = [], hash = []\<rparr>) 301))"
proof -
  have n: "name (module_params ''std'' [] ''fmt/testing.ts'') = ''std''"
    by (simp add: module_params_def)
  have p: "take 2 (pathname (url (deno_land ''/x/std/fmt/testing.ts'' [] [] ''*/*''))) = ''/x''"
    by (simp add: deno_land_def)
  from std_legacy_prefix_redirect [OF n p, of registry] show ?thesis
    using n p by (simp add: deno_land_def)
qed

section \<open>View classification\<close>

text \<open>
  Claim C6. For every rendered request the view is decided by this precedence: a
  \<^verbatim>\<open>source\<close> search parameter gives Source; otherwise a \<^verbatim>\<open>doc\<close> parameter gives Doc;
  otherwise an empty sub-path gives Info; otherwise Doc. That view is the one of the
  handler's first call, the page-metadata fetch, and of any page it hands to rendering.
\<close>

theorem view_precedence:
  assumes "\<not> legacy_std_prefix req ps" and "isHTML d req"
  shows "resolve_view (url req) (path ps) =
           (if ''source'' \<in> fst ` set (searchParams (url req)) then Source
            else if ''doc'' \<in> fst ` set (searchParams (url req)) then Doc
            else if path ps = [] then Info
            else Doc)
         \<and> (\<exists>cs. fst (handler_GET d req ps) =
               Fetch (resURL (resolve_view (url req) (path ps)) ps)
                 (symbol_param (url req) (resolve_view (url req) (path ps))) # cs)
         \<and> (\<forall>dd. snd (handler_GET d req ps) = Inr (Render (Some dd)) \<longrightarrow>
               view dd = resolve_view (url req) (path ps))"
proof (intro conjI allI impI)
  show "resolve_view (url req) (path ps) =
           (if ''source'' \<in> fst ` set (searchParams (url req)) then Source
            else if ''doc'' \<in> fst ` set (searchParams (url req)) then Doc
            else if path ps = [] then Info
            else Doc)"
    by (simp add: resolve_view_def URLSearchParams_has_def)
next
  show "\<exists>cs. fst (handler_GET d req ps) =
               Fetch (resURL (resolve_view (url req) (path ps)) ps)
                 (symbol_param (url req) (resolve_view (url req) (path ps))) # cs"
    using rendered_first_call [OF assms] by (simp add: page_call_def)
next
  fix dd
  assume "snd (handler_GET d req ps) = Inr (Render (Some dd))"
  with assms show "view dd = resolve_view (url req) (path ps)"
    by (rule rendered_view)
qed

theorem view_precedence_witness:
  "\<not> legacy_std_prefix
        (deno_land ''/x/oak@v12.6.1/mod.ts'' ''?doc&source'' [(''doc'', []), (''source'', [])] ''text/html'')
        (module_params ''oak'' ''v12.6.1'' ''mod.ts'')
   \<and> isHTML (answering (ok_page ''file''))
        (deno_land ''/x/oak@v12.6.1/mod.ts'' ''?doc&source'' [(''doc'', []), (''source'', [])] ''text/html'')
   \<and> resolve_view
        (url (deno_land ''/x/oak@v12.6.1/mod.ts'' ''?doc&source'' [(''doc'', []), (''source'', [])]
           ''text/html''))
        (path (module_params ''oak'' ''v12.6.1'' ''mod.ts'')) = Source
   \<and> handler_GET (answering (ok_page ''file''))
        (deno_land ''/x/oak@v12.6.1/mod.ts'' ''?doc&source'' [(''doc'', []), (''source'', [])] ''text/html'')
        (module_params ''oak'' ''v12.6.1'' ''mod.ts'') =
       ([Fetch ''https://apiland.deno.dev/v2/pages/mod/source/oak/v12.6.1/mod.ts'' None,
         GetRawFile ''oak'' ''v12.6.1'' ''/mod.ts''],
        Inr (Render (Some \<lparr>data = \<lparr>kind = ''file'', readme = None, readmeFile = None,
                                   page_file = Some (Content ''export {};'')\<rparr>,
                            view = Source\<rparr>)))"
proof -
  let ?r = "deno_land ''/x/oak@v12.6.1/mod.ts'' ''?doc&source'' [(''doc'', []), (''source'', [])] ''text/html''"
  let ?p = "module_params ''oak'' ''v12.6.1'' ''mod.ts''"
  let ?d = "answering (ok_page ''file'')"
  have h1: "\<not> legacy_std_prefix ?r ?p"
    by (simp add: legacy_std_prefix_def module_params_def)
  have h2: "isHTML ?d ?r"
    by (simp add: isHTML_def answering_def registry_def accepts_one_def deno_land_def)
  have v: "resolve_view (url ?r) (path ?p) = Source"
    using conjunct1 [OF view_precedence [OF h1 h2]] by (simp add: deno_land_def)
  have ev: "handler_GET ?d ?r ?p =
       ([Fetch ''https://apiland.deno.dev/v2/pages/mod/source/oak/v12.6.1/mod.ts'' None,
         GetRawFile ''oak'' ''v12.6.1'' ''/mod.ts''],
        Inr (Render (Some \<lparr>data = \<lparr>kind = ''file'', readme = None, readmeFile = None,
                                   page_file = Some (Content ''export {};'')\<rparr>,
                            view = Source\<rparr>)))"
    by (simp add: handler_GET_def legacy_std_prefix_def isHTML_def answering_def registry_def
        accepts_one_def deno_land_def module_params_def ok_page_def Let_def extractAlt_spec_def
        resolve_view_def URLSearchParams_has_def resURL_def symbol_param_def
        URLSearchParams_get_def enrich_def)
  from h1 h2 v ev show ?thesis
    by blast
qed

section \<open>Path canonicalisation\<close>

text \<open>
  Claim C7. For a rendered request for which the metadata service answers 301 with the
  header \<^verbatim>\<open>X-Deno-Module-Path\<close>, the handler answers 301 with the \<^verbatim>\<open>Location\<close> of the
  module path of the same name and version and of the sub-path the header gives.
\<close>

theorem canonical_path_redirect:
  assumes "\<not> legacy_std_prefix req ps" and "isHTML d req"
    and "page_answer d req ps = Inr res" and "status res = 301"
    and "headers res ''X-Deno-Module-Path'' = Some np"
  shows "handler_GET d req ps =
           ([page_call req ps],
            Inr (Respond (Response 301
              [(''Location'', getModulePath d (name ps) (Some (version ps)) (Some np))] None)))"
  using assms by (simp add: rendered_unfold Let_def)

theorem canonical_path_redirect_witness:
  "\<not> legacy_std_prefix (deno_land ''/x/oak@v12.6.1/middleware'' [] [] ''text/html'')
        (module_params ''oak'' ''v12.6.1'' ''middleware'')
   \<and> isHTML (answering (signal 301 ''X-Deno-Module-Path'' ''/middleware/mod.ts''))
        (deno_land ''/x/oak@v12.6.1/middleware'' [] [] ''text/html'')
   \<and> page_answer (answering (signal 301 ''X-Deno-Module-Path'' ''/middleware/mod.ts''))
        (deno_land ''/x/oak@v12.6.1/middleware'' [] [] ''text/html'')
        (module_params ''oak'' ''v12.6.1'' ''middleware'')
       = Inr (signal 301 ''X-Deno-Module-Path'' ''/middleware/mod.ts'')
   \<and> status (signal 301 ''X-Deno-Module-Path'' ''/middleware/mod.ts'') = 301
   \<and> headers (signal 301 ''X-Deno-Module-Path'' ''/middleware/mod.ts'') ''X-Deno-Module-Path''
       = Some ''/middleware/mod.ts''
   \<and> handler_GET (answering (signal 301 ''X-Deno-Module-Path'' ''/middleware/mod.ts''))
        (deno_land ''/x/oak@v12.6.1/middleware'' [] [] ''text/html'')
        (module_params ''oak'' ''v12.6.1'' ''middleware'') =
       ([Fetch ''https://apiland.deno.dev/v2/pages/mod/doc/oak/v12.6.1/middleware'' None],
        Inr (Respond (Response 301 [(''Location'', ''/x/oak@v12.6.1/middleware/mod.ts'')] None)))"
proof -
  let ?r = "deno_land ''/x/oak@v12.6.1/middleware'' [] [] ''text/html''"
  let ?p = "module_params ''oak'' ''v12.6.1'' ''middleware''"
  let ?s = "signal 301 ''X-Deno-Module-Path'' ''/middleware/mod.ts''"
  have h1: "\<not> legacy_std_prefix ?r ?p"
    by (simp add: legacy_std_prefix_def module_params_def)
  have h2: "isHTML (answering ?s) ?r"
    by (simp add: isHTML_def answering_def registry_def accepts_one_def deno_land_def)
  have h3: "page_answer (answering ?s) ?r ?p = Inr ?s"
    by (simp add: page_answer_def answering_def)
  have h4: "status ?s = 301"
    by (simp add: signal_def)
  have h5: "headers ?s ''X-Deno-Module-Path'' = Some ''/middleware/mod.ts''"
    by (simp add: signal_def)
  have g: "getModulePath (answering ?s) (name ?p) (Some (version ?p)) (Some ''/middleware/mod.ts'')
             = ''/x/oak@v12.6.1/middleware/mod.ts''"
    by (simp add: answering_def registry_def getModulePath_spec_def module_params_def)
  have pc: "page_call ?r ?p =
      Fetch ''https://apiland.deno.dev/v2/pages/mod/doc/oak/v12.6.1/middleware'' None"
    by (simp add: page_call_def resolve_view_def URLSearchParams_has_def deno_land_def
        module_params_def resURL_def symbol_param_def URLSearchParams_get_def)
  from canonical_path_redirect [OF h1 h2 h3 h4 h5] show ?thesis
    using h1 h2 h3 h4 h5 g pc by simp
qed

section \<open>Anchor canonicalisation\<close>

text \<open>
  Claim C8 reads: every rendered request that has not been redirected and whose path
  carries a parseable line-number token gets a 302 redirect. The request
  \<^verbatim>\<open>/x/husk/mod.ts:12\<close> for a module without versions is rendered, has not been
  redirected and carries the token \<^verbatim>\<open>:12\<close>; the handler hands the \<^verbatim>\<open>no-versions\<close> page
  to rendering (line 131) and never looks at the token.
\<close>

theorem anchor_skipped_for_no_versions_counterexample:
  "\<not> legacy_std_prefix (deno_land ''/x/husk/mod.ts:12'' [] [] ''text/html'')
        (module_params ''husk'' [] ''mod.ts:12'')
   \<and> isHTML (answering (ok_page ''no-versions'')) (deno_land ''/x/husk/mod.ts:12'' [] [] ''text/html'')
   \<and> extractAltLineNumberReference (answering (ok_page ''no-versions''))
        (pathname (url (deno_land ''/x/husk/mod.ts:12'' [] [] ''text/html'')))
       = Some \<lparr>rest = ''/x/husk/mod.ts'', line = 12\<rparr>
   \<and> handler_GET (answering (ok_page ''no-versions''))
        (deno_land ''/x/husk/mod.ts:12'' [] [] ''text/html'') (module_params ''husk'' [] ''mod.ts:12'') =
       ([Fetch ''https://apiland.deno.dev/v2/pages/mod/doc/husk/__latest__/mod.ts:12'' None],
        Inr (Render (Some \<lparr>data = \<lparr>kind = ''no-versions'', readme = None, readmeFile = None,
                                   page_file = None\<rparr>,
                            view = Doc\<rparr>)))
   \<and> \<not> is_redirect (snd (handler_GET (answering (ok_page ''no-versions''))
        (deno_land ''/x/husk/mod.ts:12'' [] [] ''text/html'') (module_params ''husk'' [] ''mod.ts:12'')))"
  by (simp add: handler_GET_def legacy_std_prefix_def isHTML_def answering_def registry_def
      accepts_one_def deno_land_def module_params_def ok_page_def Let_def extractAlt_spec_def
      digit_value_def resolve_view_def URLSearchParams_has_def resURL_def symbol_param_def
      URLSearchParams_get_def is_redirect_def)

text \<open>
  Claim C8, as the handler has it. For a rendered request for which the metadata service
  answered with a page (a status other than 404, 302 and 301, and a body that parses)
  whose kind is not \<^verbatim>\<open>no-versions\<close> and that is not a file asked for as documentation:
  when the path carries a line-number reference, the handler answers with a 302 redirect
  to the request's address after three assignments: the path is assigned the rest (the
  platform's setter parses it), the \<^verbatim>\<open>source\<close> flag is set, and the fragment is
  \<^verbatim>\<open>L\<close> followed by the text the platform gives the line number. When the path carries
  no reference, the handler goes on to the enrichment, the answer is no redirect, and it
  is the page handed to rendering unless the enrichment's own fetch fails.
\<close>

theorem anchor_canonicalization:
  assumes "\<not> legacy_std_prefix req ps" and "isHTML d req"
    and "page_answer d req ps = Inr res"
    and "status res \<noteq> 404" and "status res \<noteq> 302" and "status res \<noteq> 301"
    and "json res = Some pg" and "kind pg \<noteq> ''no-versions''"
    and "\<not> (resolve_view (url req) (path ps) = Doc \<and> kind pg = ''file'')"
  shows "(\<forall>ln. extractAltLineNumberReference d (pathname (url req)) = Some ln \<longrightarrow>
            handler_GET d req ps =
              ([page_call req ps],
               Inr (Redirect
                 (Obj ((url req)\<lparr>pathname := URL_pathname_setter d (url req) (rest ln),
                         searchParams := URLSearchParams_set ''source'' [] (searchParams (url req)),
                         hash := ''L'' @ Number_toString d (line ln)\<rparr>)) 302)))
       \<and> (extractAltLineNumberReference d (pathname (url req)) = None \<longrightarrow>
            handler_GET d req ps =
              enrich d ps [page_call req ps] \<lparr>data = pg, view = resolve_view (url req) (path ps)\<rparr>
            \<and> \<not> is_redirect (snd (handler_GET d req ps))
            \<and> ((\<exists>dd. snd (handler_GET d req ps) = Inr (Render (Some dd))
                    \<and> view dd = resolve_view (url req) (path ps) \<and> kind (data dd) = kind pg)
               \<or> (\<exists>e. snd (handler_GET d req ps) = Inl e
                    \<and> ((\<exists>r. getReadme d (name ps) (version ps) r = Inl e)
                       \<or> (\<exists>p. getRawFile d (name ps) (version ps) p = Inl e)))))"
proof (intro conjI allI impI)
  fix ln
  assume "extractAltLineNumberReference d (pathname (url req)) = Some ln"
  with assms show "handler_GET d req ps =
              ([page_call req ps],
               Inr (Redirect
                 (Obj ((url req)\<lparr>pathname := URL_pathname_setter d (url req) (rest ln),
                         searchParams := URLSearchParams_set ''source'' [] (searchParams (url req)),
                         hash := ''L'' @ Number_toString d (line ln)\<rparr>)) 302))"
    by (simp add: rendered_past_view)
next
  assume n: "extractAltLineNumberReference d (pathname (url req)) = None"
  with assms show e: "handler_GET d req ps =
      enrich d ps [page_call req ps] \<lparr>data = pg, view = resolve_view (url req) (path ps)\<rparr>"
    by (simp add: rendered_past_view)
  show "\<not> is_redirect (snd (handler_GET d req ps))"
    using enrich_outcome [of d ps "[page_call req ps]"
        "\<lparr>data = pg, view = resolve_view (url req) (path ps)\<rparr>"]
    by (auto simp add: e is_redirect_def)
  show "(\<exists>dd. snd (handler_GET d req ps) = Inr (Render (Some dd))
            \<and> view dd = resolve_view (url req) (path ps) \<and> kind (data dd) = kind pg)
        \<or> (\<exists>e. snd (handler_GET d req ps) = Inl e
            \<and> ((\<exists>r. getReadme d (name ps) (version ps) r = Inl e)
               \<or> (\<exists>p. getRawFile d (name ps) (version ps) p = Inl e)))"
    using enrich_outcome [of d ps "[page_call req ps]"
        "\<lparr>data = pg, view = resolve_view (url req) (path ps)\<rparr>"]
    by (simp add: e)
qed

theorem anchor_canonicalization_witness:
  "\<not> legacy_std_prefix (deno_land ''/x/oak@v12.6.1/mod.ts:12'' [] [] ''text/html'')
        (module_params ''oak'' ''v12.6.1'' ''mod.ts:12'')
   \<and> isHTML (answering (ok_page ''notfound'')) (deno_land ''/x/oak@v12.6.1/mod.ts:12'' [] [] ''text/html'')
   \<and> page_answer (answering (ok_page ''notfound''))
        (deno_land ''/x/oak@v12.6.1/mod.ts:12'' [] [] ''text/html'')
        (module_params ''oak'' ''v12.6.1'' ''mod.ts:12'') = Inr (ok_page ''notfound'')
   \<and> status (ok_page ''notfound'') = 200
   \<and> json (ok_page ''notfound'')
       = Some \<lparr>kind = ''notfound'', readme = None, readmeFile = None, page_file = None\<rparr>
   \<and> extractAltLineNumberReference (answering (ok_page ''notfound''))
        (pathname (url (deno_land ''/x/oak@v12.6.1/mod.ts:12'' [] [] ''text/html'')))
       = Some \<lparr>rest = ''/x/oak@v12.6.1/mod.ts'', line = 12\<rparr>
   \<and> handler_GET (answering (ok_page ''notfound''))
        (deno_land ''/x/oak@v12.6.1/mod.ts:12'' [] [] ''text/html'')
        (module_params ''oak'' ''v12.6.1'' ''mod.ts:12'') =
       ([Fetch ''https://apiland.deno.dev/v2/pages/mod/doc/oak/v12.6.1/mod.ts:12'' None],
        Inr (Redirect (Obj \<lparr>origin = ''https://deno.land'', pathname = ''/x/oak@v12.6.1/mod.ts'',
               searchParams = [(''source'', [])], hash = ''L12''\<rparr>) 302))
   \<and> \<not> legacy_std_prefix (deno_land ''/x/oak@v12.6.1/mod.ts:1a'' [] [] ''text/html'')
        (module_params ''oak'' ''v12.6.1'' ''mod.ts:1a'')
   \<and> isHTML (answering (ok_page ''notfound'')) (deno_land ''/x/oak@v12.6.1/mod.ts:1a'' [] [] ''text/html'')
   \<and> page_answer (answering (ok_page ''notfound''))
        (deno_land ''/x/oak@v12.6.1/mod.ts:1a'' [] [] ''text/html'')
        (module_params ''oak'' ''v12.6.1'' ''mod.ts:1a'') = Inr (ok_page ''notfound'')
   \<and> extractAltLineNumberReference (answering (ok_page ''notfound''))
        (pathname (url (deno_land ''/x/oak@v12.6.1/mod.ts:1a'' [] [] ''text/html''))) = None
   \<and> handler_GET (answering (ok_page ''notfound''))
        (deno_land ''/x/oak@v12.6.1/mod.ts:1a'' [] [] ''text/html'')
        (module_params ''oak'' ''v12.6.1'' ''mod.ts:1a'') =
       ([Fetch ''https://apiland.deno.dev/v2/pages/mod/doc/oak/v12.6.1/mod.ts:1a'' None],
        Inr (Render (Some \<lparr>data = \<lparr>kind = ''notfound'', readme = None, readmeFile = None,
                                   page_file = None\<rparr>,
                            view = Doc\<rparr>)))
   \<and> \<not> is_redirect (snd (handler_GET (answering (ok_page ''notfound''))
        (deno_land ''/x/oak@v12.6.1/mod.ts:1a'' [] [] ''text/html'')
        (module_params ''oak'' ''v12.6.1'' ''mod.ts:1a'')))"
proof -
  let ?d = "answering (ok_page ''notfound'')"
  let ?r = "deno_land ''/x/oak@v12.6.1/mod.ts:12'' [] [] ''text/html''"
  let ?p = "module_params ''oak'' ''v12.6.1'' ''mod.ts:12''"
  let ?r' = "deno_land ''/x/oak@v12.6.1/mod.ts:1a'' [] [] ''text/html''"
  let ?p' = "module_params ''oak'' ''v12.6.1'' ''mod.ts:1a''"
  let ?pg = "\<lparr>kind = ''notfound'', readme = None, readmeFile = None, page_file = None\<rparr>"
  have h1: "\<not> legacy_std_prefix ?r ?p" "\<not> legacy_std_prefix ?r' ?p'"
    by (simp_all add: legacy_std_prefix_def module_params_def)
  have h2: "isHTML ?d ?r" "isHTML ?d ?r'"
    by (simp_all add: isHTML_def answering_def registry_def accepts_one_def deno_land_def)
  have h3: "page_answer ?d ?r ?p = Inr (ok_page ''notfound'')"
    "page_answer ?d ?r' ?p' = Inr (ok_page ''notfound'')"
    by (simp_all add: page_answer_def answering_def)
  have h4: "status (ok_page ''notfound'') \<noteq> 404" "status (ok_page ''notfound'') \<noteq> 302"
    "status (ok_page ''notfound'') \<noteq> 301" "status (ok_page ''notfound'') = 200"
    by (simp_all add: ok_page_def)
  have h5: "json (ok_page ''notfound'') = Some ?pg"
    by (simp add: ok_page_def)
  have h6: "kind ?pg \<noteq> ''no-versions''"
    by simp
  have h7: "\<not> (resolve_view (url ?r) (path ?p) = Doc \<and> kind ?pg = ''file'')"
    "\<not> (resolve_view (url ?r') (path ?p') = Doc \<and> kind ?pg = ''file'')"
    by simp_all
  have x: "extractAltLineNumberReference ?d (pathname (url ?r))
      = Some \<lparr>rest = ''/x/oak@v12.6.1/mod.ts'', line = 12\<rparr>"
    by (simp add: answering_def registry_def extractAlt_spec_def deno_land_def Let_def
        digit_value_def)
  have x': "extractAltLineNumberReference ?d (pathname (url ?r')) = None"
    by (simp add: answering_def registry_def extractAlt_spec_def deno_land_def Let_def)
  have pc: "page_call ?r ?p = Fetch ''https://apiland.deno.dev/v2/pages/mod/doc/oak/v12.6.1/mod.ts:12'' None"
    "page_call ?r' ?p' = Fetch ''https://apiland.deno.dev/v2/pages/mod/doc/oak/v12.6.1/mod.ts:1a'' None"
    by (simp_all add: page_call_def resolve_view_def URLSearchParams_has_def deno_land_def
        module_params_def resURL_def symbol_param_def URLSearchParams_get_def)
  note t = anchor_canonicalization [OF h1(1) h2(1) h3(1) h4(1) h4(2) h4(3) h5 h6 h7(1)]
  note t' = anchor_canonicalization [OF h1(2) h2(2) h3(2) h4(1) h4(2) h4(3) h5 h6 h7(2)]
  have a: "handler_GET ?d ?r ?p =
       ([Fetch ''https://apiland.deno.dev/v2/pages/mod/doc/oak/v12.6.1/mod.ts:12'' None],
        Inr (Redirect (Obj \<lparr>origin = ''https://deno.land'', pathname = ''/x/oak@v12.6.1/mod.ts'',
               searchParams = [(''source'', [])], hash = ''L12''\<rparr>) 302))"
    using conjunct1 [OF t, rule_format, OF x]
    by (simp add: pc URLSearchParams_set_def URLSearchParams_has_def)
      (simp add: deno_land_def answering_def registry_def string_of_nat_12)
  have b: "handler_GET ?d ?r' ?p' =
      enrich ?d ?p' [page_call ?r' ?p'] \<lparr>data = ?pg, view = resolve_view (url ?r') (path ?p')\<rparr>"
    and c: "\<not> is_redirect (snd (handler_GET ?d ?r' ?p'))"
    using conjunct2 [OF t', rule_format, OF x'] by blast+
  have b': "handler_GET ?d ?r' ?p' =
       ([Fetch ''https://apiland.deno.dev/v2/pages/mod/doc/oak/v12.6.1/mod.ts:1a'' None],
        Inr (Render (Some \<lparr>data = ?pg, view = Doc\<rparr>)))"
    unfolding b
    by (simp add: pc enrich_def)
      (simp add: resolve_view_def URLSearchParams_has_def deno_land_def module_params_def)
  from h1 h2 h3 h4(4) h5 x x' a b' c show ?thesis
    by blast
qed

section \<open>The source redirect does not loop\<close>

text \<open>
  Claim C9. An address produced by the redirect of claim C2, that is an address with the
  \<^verbatim>\<open>source\<close> flag set on it, classifies as Source whatever its sub-path, because the
  \<^verbatim>\<open>source\<close> parameter is tested before the \<^verbatim>\<open>doc\<close> parameter; setting the flag again
  changes nothing; the condition of the redirect (view Doc and kind \<^verbatim>\<open>file\<close>) cannot
  hold for it, and the handler answers a request for it with no 301 redirect of a
  \<^verbatim>\<open>URL\<close> object, whatever the environment.
\<close>

theorem source_redirect_settles:
  assumes "url req' = u\<lparr>searchParams := URLSearchParams_set ''source'' [] (searchParams u)\<rparr>"
    and "\<not> legacy_std_prefix req' ps'"
  shows "resolve_view (url req') (path ps') = Source
       \<and> URLSearchParams_set ''source'' [] (searchParams (url req')) = searchParams (url req')
       \<and> \<not> (resolve_view (url req') (path ps') = Doc \<and> k = ''file'')
       \<and> snd (handler_GET d' req' ps') \<noteq> Inr (Redirect t 301)"
proof -
  have v: "resolve_view (url req') (path ps') = Source"
    using assms(1) by (simp add: resolve_view_def has_after_set)
  have i: "URLSearchParams_set ''source'' [] (searchParams (url req')) = searchParams (url req')"
    using assms(1) by (simp add: set_idem)
  from v i source_view_no_permanent_redirect [OF assms(2) v] show ?thesis
    by simp
qed

theorem source_redirect_settles_witness:
  "url (deno_land ''/x/oak@v12.6.1/LICENSE'' ''?doc=&source='' [(''doc'', []), (''source'', [])] ''text/html'')
     = (url (deno_land ''/x/oak@v12.6.1/LICENSE'' ''?doc'' [(''doc'', [])] ''text/html''))
         \<lparr>searchParams := URLSearchParams_set ''source'' []
            (searchParams (url (deno_land ''/x/oak@v12.6.1/LICENSE'' ''?doc'' [(''doc'', [])] ''text/html'')))\<rparr>
   \<and> \<not> legacy_std_prefix
        (deno_land ''/x/oak@v12.6.1/LICENSE'' ''?doc=&source='' [(''doc'', []), (''source'', [])] ''text/html'')
        (module_params ''oak'' ''v12.6.1'' ''LICENSE'')
   \<and> resolve_view
        (url (deno_land ''/x/oak@v12.6.1/LICENSE'' ''?doc=&source='' [(''doc'', []), (''source'', [])]
           ''text/html''))
        (path (module_params ''oak'' ''v12.6.1'' ''LICENSE'')) = Source
   \<and> snd (handler_GET (answering (ok_page ''file''))
        (deno_land ''/x/oak@v12.6.1/LICENSE'' ''?doc=&source='' [(''doc'', []), (''source'', [])] ''text/html'')
        (module_params ''oak'' ''v12.6.1'' ''LICENSE''))
      \<noteq> Inr (Redirect (Obj (url (deno_land ''/x/oak@v12.6.1/LICENSE'' ''?doc=&source=''
                [(''doc'', []), (''source'', [])] ''text/html''))) 301)
   \<and> snd (handler_GET (answering (ok_page ''file''))
        (deno_land ''/x/oak@v12.6.1/LICENSE'' ''?doc=&source='' [(''doc'', []), (''source'', [])] ''text/html'')
        (module_params ''oak'' ''v12.6.1'' ''LICENSE''))
      = Inr (Render (Some \<lparr>data = \<lparr>kind = ''file'', readme = None, readmeFile = None,
                                   page_file = Some (Content ''export {};'')\<rparr>,
                            view = Source\<rparr>))"
proof -
  let ?a = "deno_land ''/x/oak@v12.6.1/LICENSE'' ''?doc'' [(''doc'', [])] ''text/html''"
  let ?r = "deno_land ''/x/oak@v12.6.1/LICENSE'' ''?doc=&source='' [(''doc'', []), (''source'', [])] ''text/html''"
  let ?p = "module_params ''oak'' ''v12.6.1'' ''LICENSE''"
  let ?d = "answering (ok_page ''file'')"
  have h1: "url ?r = (url ?a)\<lparr>searchParams :=
      URLSearchParams_set ''source'' [] (searchParams (url ?a))\<rparr>"
    by (simp add: deno_land_def URLSearchParams_set_def URLSearchParams_has_def)
  have h2: "\<not> legacy_std_prefix ?r ?p"
    by (simp add: legacy_std_prefix_def module_params_def)
  note t = source_redirect_settles [OF h1 h2, of "''file''" ?d "Obj (url ?r)"]
  have ev: "snd (handler_GET ?d ?r ?p)
      = Inr (Render (Some \<lparr>data = \<lparr>kind = ''file'', readme = None, readmeFile = None,
                                   page_file = Some (Content ''export {};'')\<rparr>,
                            view = Source\<rparr>))"
    by (simp add: handler_GET_def legacy_std_prefix_def isHTML_def answering_def registry_def
        accepts_one_def deno_land_def module_params_def ok_page_def Let_def extractAlt_spec_def
        resolve_view_def URLSearchParams_has_def resURL_def symbol_param_def
        URLSearchParams_get_def enrich_def)
  from h1 h2 t ev show ?thesis
    by blast
qed

section \<open>The latest-version header\<close>

text \<open>
  Claim C10. In the 302 branch the handler reads the header
  \<^verbatim>\<open>X-Deno-Latest-Version\<close> and passes what it finds to \<^verbatim>\<open>getModulePath\<close> with no
  test and no failure branch: the answer is the redirect in either case. When the header
  is there, the address is the module path at the version it gives; when it is missing,
  \<^verbatim>\<open>null\<close> is what \<^verbatim>\<open>getModulePath\<close> receives as the version, so the redirect is to a
  version-qualified address only if every 302 answer carries the header.
\<close>

theorem implicit_latest_header_unguarded:
  assumes "\<not> legacy_std_prefix req ps" and "isHTML d req"
    and "page_answer d req ps = Inr res" and "status res = 302"
  shows "snd (handler_GET d req ps) =
           Inr (Redirect (WithBase
             (getModulePath d (name ps) (headers res ''X-Deno-Latest-Version'')
                (if path ps \<noteq> [] then Some (''/'' @ path ps) else None)) (url req)) 302)
         \<and> (\<forall>lv. headers res ''X-Deno-Latest-Version'' = Some lv \<longrightarrow>
              snd (handler_GET d req ps) =
                Inr (Redirect (WithBase
                  (getModulePath d (name ps) (Some lv)
                     (if path ps \<noteq> [] then Some (''/'' @ path ps) else None)) (url req)) 302))
         \<and> (headers res ''X-Deno-Latest-Version'' = None \<longrightarrow>
              snd (handler_GET d req ps) =
                Inr (Redirect (WithBase
                  (getModulePath d (name ps) None
                     (if path ps \<noteq> [] then Some (''/'' @ path ps) else None)) (url req)) 302))"
  using assms by (simp add: rendered_unfold Let_def)

theorem implicit_latest_header_unguarded_witness:
  "\<not> legacy_std_prefix (deno_land ''/x/oak'' [] [] ''text/html'') (module_params ''oak'' [] [])
   \<and> isHTML (answering (signal 302 ''X-Deno-Latest-Version'' ''v12.6.1''))
        (deno_land ''/x/oak'' [] [] ''text/html'')
   \<and> page_answer (answering (signal 302 ''X-Deno-Latest-Version'' ''v12.6.1''))
        (deno_land ''/x/oak'' [] [] ''text/html'') (module_params ''oak'' [] [])
       = Inr (signal 302 ''X-Deno-Latest-Version'' ''v12.6.1'')
   \<and> status (signal 302 ''X-Deno-Latest-Version'' ''v12.6.1'') = 302
   \<and> headers (signal 302 ''X-Deno-Latest-Version'' ''v12.6.1'') ''X-Deno-Latest-Version''
       = Some ''v12.6.1''
   \<and> snd (handler_GET (answering (signal 302 ''X-Deno-Latest-Version'' ''v12.6.1''))
        (deno_land ''/x/oak'' [] [] ''text/html'') (module_params ''oak'' [] []))
       = Inr (Redirect (WithBase ''/x/oak@v12.6.1'' (url (deno_land ''/x/oak'' [] [] ''text/html''))) 302)
   \<and> isHTML (answering (signal 302 ''Date'' ''today'')) (deno_land ''/x/oak'' [] [] ''text/html'')
   \<and> page_answer (answering (signal 302 ''Date'' ''today''))
        (deno_land ''/x/oak'' [] [] ''text/html'') (module_params ''oak'' [] [])
       = Inr (signal 302 ''Date'' ''today'')
   \<and> status (signal 302 ''Date'' ''today'') = 302
   \<and> headers (signal 302 ''Date'' ''today'') ''X-Deno-Latest-Version'' = None
   \<and> snd (handler_GET (answering (signal 302 ''Date'' ''today''))
        (deno_land ''/x/oak'' [] [] ''text/html'') (module_params ''oak'' [] []))
       = Inr (Redirect (WithBase ''/x/oak'' (url (deno_land ''/x/oak'' [] [] ''text/html''))) 302)"
proof -
  let ?r = "deno_land ''/x/oak'' [] [] ''text/html''"
  let ?p = "module_params ''oak'' [] []"
  let ?s = "signal 302 ''X-Deno-Latest-Version'' ''v12.6.1''"
  let ?t = "signal 302 ''Date'' ''today''"
  have h1: "\<not> legacy_std_prefix ?r ?p"
    by (simp add: legacy_std_prefix_def module_params_def)
  have h2: "isHTML (answering ?s) ?r" "isHTML (answering ?t) ?r"
    by (simp_all add: isHTML_def answering_def registry_def accepts_one_def deno_land_def)
  have h3: "page_answer (answering ?s) ?r ?p = Inr ?s" "page_answer (answering ?t) ?r ?p = Inr ?t"
    by (simp_all add: page_answer_def answering_def)
  have h4: "status ?s = 302" "status ?t = 302"
    by (simp_all add: signal_def)
  have h5: "headers ?s ''X-Deno-Latest-Version'' = Some ''v12.6.1''"
    "headers ?t ''X-Deno-Latest-Version'' = None"
    by (simp_all add: signal_def)
  have g: "getModulePath (answering ?s) (name ?p) (Some ''v12.6.1'')
             (if path ?p \<noteq> [] then Some (''/'' @ path ?p) else None) = ''/x/oak@v12.6.1''"
    "getModulePath (answering ?t) (name ?p) None
             (if path ?p \<noteq> [] then Some (''/'' @ path ?p) else None) = ''/x/oak''"
    by (simp_all add: answering_def registry_def getModulePath_spec_def module_params_def)
  from implicit_latest_header_unguarded [OF h1 h2(1) h3(1) h4(1)]
    implicit_latest_header_unguarded [OF h1 h2(2) h3(2) h4(2)]
  show ?thesis
    using h1 h2 h3 h4 h5 g by simp
qed

end
